theory Spec2Isabelle
  imports Main "HOL-Library.AList"
begin

section \<open>Values, documents and exceptions\<close>

text \<open>
  The library \<^verbatim>\<open>grafana_agent.py\<close> keeps the Promtail configuration as the Python value
  that \<^verbatim>\<open>yaml.safe_load\<close> returns. The values are modelled as a tree: null, booleans,
  integers, strings, lists and dictionaries with string keys (floats, timestamps, binaries
  and sets are not part of the model). A dictionary is an association list in insertion
  order whose keys are distinct; \<^verbatim>\<open>d[k] = v\<close> is \<open>AList.update\<close> (replace in place, or
  append), \<^verbatim>\<open>d.get(k)\<close> is \<open>map_of\<close>. Documents are values: two different places of a
  document never share one mutable object.
\<close>

datatype yaml =
    YNull
  | YBool bool
  | YInt int
  | YStr string
  | YList "yaml list"
  | YDict "(string \<times> yaml) list"

type_synonym doc = "(string \<times> yaml) list"

text \<open>The exceptions that the modelled code raises, or that the calls it makes raise.\<close>

datatype exn =
    PromtailDigestError
  | KeyError
  | AttributeError
  | TypeError
  | PathError
  | URLError
  | BadZipFile
  | FileNotFoundError
  | ModelError
  | Exception

definition bind_exn :: "exn + 'a \<Rightarrow> ('a \<Rightarrow> exn + 'b) \<Rightarrow> exn + 'b" where
  "bind_exn r f = (case r of Inl e \<Rightarrow> Inl e | Inr a \<Rightarrow> f a)"

text \<open>Python's truth value, \<^verbatim>\<open>len\<close> and iteration, on the modelled values.\<close>

fun py_truthy :: "yaml \<Rightarrow> bool" where
  "py_truthy YNull = False"
| "py_truthy (YBool b) = b"
| "py_truthy (YInt i) = (i \<noteq> 0)"
| "py_truthy (YStr s) = (s \<noteq> [])"
| "py_truthy (YList xs) = (xs \<noteq> [])"
| "py_truthy (YDict kvs) = (kvs \<noteq> [])"

fun py_len :: "yaml \<Rightarrow> exn + nat" where
  "py_len (YStr s) = Inr (length s)"
| "py_len (YList xs) = Inr (length xs)"
| "py_len (YDict kvs) = Inr (length kvs)"
| "py_len _ = Inl TypeError"

fun py_iter :: "yaml \<Rightarrow> exn + yaml list" where
  "py_iter (YStr s) = Inr (map (\<lambda>c. YStr [c]) s)"
| "py_iter (YList xs) = Inr xs"
| "py_iter (YDict kvs) = Inr (map (\<lambda>(k, v). YStr k) kvs)"
| "py_iter _ = Inl TypeError"

section \<open>Config mutation: \<^verbatim>\<open>_add_client\<close> and \<^verbatim>\<open>_remove_client\<close>\<close>

text \<open>The client entry \<^verbatim>\<open>{"url": agent_url}\<close>.\<close>

definition client :: "string \<Rightarrow> yaml" where
  "client agent_url = YDict [(''url'', YStr agent_url)]"

text \<open>
  \<^verbatim>\<open>_add_client\<close>: when the key is there, \<^verbatim>\<open>current_config["clients"].append(...)\<close>, which
  only a list has (AttributeError otherwise, raised before anything is changed); when it
  is not, the key is created with a one-element list.
\<close>

definition add_client :: "doc \<Rightarrow> string \<Rightarrow> exn + doc" where
  "add_client current_config agent_url =
     (case map_of current_config ''clients'' of
        Some v \<Rightarrow>
          (case v of
             YList cs \<Rightarrow>
               Inr (AList.update ''clients'' (YList (cs @ [client agent_url])) current_config)
           | _ \<Rightarrow> Inl AttributeError)
      | None \<Rightarrow> Inr (AList.update ''clients'' (YList [client agent_url]) current_config))"

text \<open>
  \<^verbatim>\<open>_remove_client\<close>: \<^verbatim>\<open>if clients := current_config.get("clients")\<close> tests the truth value
  of the entry (a missing key gives None); the comprehension iterates it and keeps what
  differs from the client entry. Both branches return the document.
\<close>

definition remove_client :: "doc \<Rightarrow> string \<Rightarrow> exn + doc" where
  "remove_client current_config agent_url =
     (case map_of current_config ''clients'' of
        None \<Rightarrow> Inr current_config
      | Some clients \<Rightarrow>
          if py_truthy clients then
            (case py_iter clients of
               Inl e \<Rightarrow> Inl e
             | Inr items \<Rightarrow>
                 Inr (AList.update ''clients''
                        (YList (filter (\<lambda>c. c \<noteq> client agent_url) items)) current_config))
          else Inr current_config)"

text \<open>
  A config document in the sense of the data model: its clients entry, when there is one,
  is a list. \<open>doc_clients\<close> reads that list (empty when the key is missing).
\<close>

definition clients_ok :: "doc \<Rightarrow> bool" where
  "clients_ok d =
     (case map_of d ''clients'' of None \<Rightarrow> True | Some (YList cs) \<Rightarrow> True | Some _ \<Rightarrow> False)"

definition doc_clients :: "doc \<Rightarrow> yaml list" where
  "doc_clients d = (case map_of d ''clients'' of Some (YList cs) \<Rightarrow> cs | _ \<Rightarrow> [])"

section \<open>The consumer: state, environment and external calls\<close>

text \<open>
  Texts that the code encodes and decodes (the JSON of the relation data and of the stored
  registry, the YAML of the config file) are represented by the values they decode to.
  The relation data of the event's unit is \<open>data\<close>: None when \<^verbatim>\<open>.get("data", None)\<close> is
  falsy (no key, or an empty text), else the members of the JSON object.
\<close>

type_synonym bytes = string

type_synonym payload = "(string \<times> string) list"

datatype event_kind = RelationCreated | RelationChanged | RelationDeparted | UpgradeCharm

record event =
  kind :: event_kind
  unit :: string
  data :: "payload option"

text \<open>
  Every call that leaves the process is recorded, in order: the file operations in the
  sidecar (\<open>ListFiles\<close>, \<open>Push\<close>, \<open>Pull\<close>), the process supervision of the sidecar
  (\<open>AddLayer\<close>, \<open>Restart\<close>, \<open>Stop\<close>), the network (\<open>UrlOpen\<close>) and the staging
  files of the charm container (\<open>OpenWrite\<close>, \<open>OpenRead\<close>, \<open>Sha256Digest\<close>,
  \<open>ExtractAll\<close>).
\<close>

datatype effect =
    ListFiles string string
  | Push string
  | Pull string
  | AddLayer "string option" yaml
  | Restart "string option"
  | Stop string
  | UrlOpen string
  | OpenWrite string
  | OpenRead string
  | Sha256Digest
  | ExtractAll string string

text \<open>
  The state that the handlers read and write: the attributes of the object
  (\<open>container_name\<close>, the model's names), the two files of the sidecar that the library
  manages (the binary at \<^verbatim>\<open>WORKLOAD_BINARY_PATH\<close>, the config at \<^verbatim>\<open>CONFIG_PATH\<close>; None when
  the file does not exist), the files of the charm container, the stored registry
  \<^verbatim>\<open>_stored.grafana_agents\<close>, and the calls made so far.
\<close>

record world =
  container_name :: "string option"
  model_name :: string
  model_uuid :: string
  app_name :: string
  workload_binary :: "bytes option"
  workload_config :: "doc option"
  local_files :: "(string \<times> bytes) list"
  grafana_agents :: "(string \<times> string) list"
  calls :: "effect list"

text \<open>
  What the library functions outside the repository answer: \<^verbatim>\<open>urlopen\<close> (None: it
  raises), \<^verbatim>\<open>sha256(...).hexdigest()\<close>, and the members of a zip archive (None: not a
  zip file).
\<close>

record env =
  urlopen :: "string \<Rightarrow> bytes option"
  sha256_hexdigest :: "bytes \<Rightarrow> string"
  zip_members :: "bytes \<Rightarrow> (string \<times> bytes) list option"

definition PROMTAIL_BINARY_ZIP_URL :: string where
  "PROMTAIL_BINARY_ZIP_URL =
     ''https://github.com/grafana/loki/releases/download/v2.4.1/promtail-linux-amd64.zip''"

definition BINARY_ZIP_PATH :: string where
  "BINARY_ZIP_PATH = ''/tmp/promtail-linux-amd64.zip''"

definition BINARY_DIR :: string where
  "BINARY_DIR = ''/tmp''"

definition BINARY_SHA25SUM :: string where
  "BINARY_SHA25SUM = ''978391a174e71cfef444ab9dc012f95d5d7eae0d682eaf1da2ea18f793452031''"

definition WORKLOAD_BINARY_PATH :: string where
  "WORKLOAD_BINARY_PATH = ''/tmp/promtail-linux-amd64''"

definition SERVICE_NAME :: string where
  "SERVICE_NAME = ''promtail''"

definition HTTP_LISTEN_PORT :: int where
  "HTTP_LISTEN_PORT = 9080"

definition GRPC_LISTEN_PORT :: int where
  "GRPC_LISTEN_PORT = 0"

definition POSITIONS_FILENAME :: string where
  "POSITIONS_FILENAME = ''/tmp/positions.yaml''"

definition CONFIG_PATH :: string where
  "CONFIG_PATH = ''/tmp/promtail_config.yml''"

text \<open>
  A method is a function from the state to its result, an exception or a value, and the
  state it leaves: what was done before an exception stays done.
\<close>

type_synonym 'a prog = "world \<Rightarrow> (exn + 'a) \<times> world"

definition return_m :: "'a \<Rightarrow> 'a prog" where
  "return_m a s = (Inr a, s)"

definition raise_m :: "exn \<Rightarrow> 'a prog" where
  "raise_m e s = (Inl e, s)"

definition lift_m :: "exn + 'a \<Rightarrow> 'a prog" where
  "lift_m r s = (r, s)"

definition bind_m :: "'a prog \<Rightarrow> ('a \<Rightarrow> 'b prog) \<Rightarrow> 'b prog" where
  "bind_m m f s = (case m s of (Inl e, s') \<Rightarrow> (Inl e, s') | (Inr a, s') \<Rightarrow> f a s')"

definition seq_m :: "unit prog \<Rightarrow> 'b prog \<Rightarrow> 'b prog" where
  "seq_m m n = bind_m m (\<lambda>_. n)"

definition call :: "effect \<Rightarrow> unit prog" where
  "call c s = (Inr (), s\<lparr>calls := calls s @ [c]\<rparr>)"

text \<open>\<^verbatim>\<open>d[k]\<close> on a dictionary: KeyError when the key is missing.\<close>

definition subscript :: "(string \<times> 'v) list \<Rightarrow> string \<Rightarrow> exn + 'v" where
  "subscript d k = (case map_of d k of None \<Rightarrow> Inl KeyError | Some v \<Rightarrow> Inr v)"

text \<open>
  \<^verbatim>\<open>json.loads(event.relation.data[event.unit].get("data"))[key]\<close>: \<^verbatim>\<open>json.loads(None)\<close> is
  a TypeError.
\<close>

definition event_data_item :: "event \<Rightarrow> string \<Rightarrow> exn + string" where
  "event_data_item ev k = (case data ev of None \<Rightarrow> Inl TypeError | Some p \<Rightarrow> subscript p k)"

section \<open>Container resolution: \<^verbatim>\<open>_get_container\<close>\<close>

text \<open>
  The unit's containers are given by their names. \<^verbatim>\<open>Unit.get_container\<close> raises a
  ModelError for a name the unit does not have; with no name given, the only container is
  taken, and anything but exactly one container is the \<^verbatim>\<open>Exception\<close> of the last line.
\<close>

definition unit_get_container :: "string list \<Rightarrow> string \<Rightarrow> exn + string" where
  "unit_get_container containers name =
     (if name \<in> set containers then Inr name else Inl ModelError)"

definition get_container :: "string list \<Rightarrow> string option \<Rightarrow> exn + string" where
  "get_container containers cname =
     (case cname of
        Some name \<Rightarrow> unit_get_container containers name
      | None \<Rightarrow>
          if length containers = 1 then unit_get_container containers (last containers)
          else Inl Exception)"

section \<open>Binary provisioning: \<^verbatim>\<open>_obtain_promtail\<close>\<close>

text \<open>
  \<^verbatim>\<open>_is_promtail_binary_in_workload\<close> lists the files of \<^verbatim>\<open>BINARY_DIR\<close> whose name matches
  the last component of \<^verbatim>\<open>WORKLOAD_BINARY_PATH\<close> (a pattern with no wildcard: the file
  itself, or nothing) and tests that there is exactly one.
\<close>

definition list_files_binary :: "world \<Rightarrow> string list" where
  "list_files_binary s =
     (case workload_binary s of None \<Rightarrow> [] | Some b \<Rightarrow> [WORKLOAD_BINARY_PATH])"

definition is_promtail_binary_in_workload :: "bool prog" where
  "is_promtail_binary_in_workload =
     seq_m (call (ListFiles BINARY_DIR ''promtail-linux-amd64''))
       (\<lambda>s. (Inr (length (list_files_binary s) = 1), s))"

text \<open>
  The loop of \<^verbatim>\<open>_download_promtail\<close>: read at most 8192 bytes of what is left of the
  response, stop at an empty chunk, append the chunk to the file otherwise.
\<close>

function read_chunks :: "bytes \<Rightarrow> bytes \<Rightarrow> bytes" where
  "read_chunks response written =
     (if take 8192 response = [] then written
      else read_chunks (drop 8192 response) (written @ take 8192 response))"
  by pat_completeness auto
termination
  by (relation "measure (\<lambda>(response, written). length response)") auto

declare read_chunks.simps [simp del]

definition write_local :: "string \<Rightarrow> bytes \<Rightarrow> unit prog" where
  "write_local path content =
     seq_m (call (OpenWrite path))
       (\<lambda>s. (Inr (), s\<lparr>local_files := AList.update path content (local_files s)\<rparr>))"

definition read_local :: "string \<Rightarrow> bytes prog" where
  "read_local path =
     seq_m (call (OpenRead path))
       (\<lambda>s. (case map_of (local_files s) path of
                None \<Rightarrow> Inl FileNotFoundError
              | Some content \<Rightarrow> Inr content, s))"

definition download_promtail :: "env \<Rightarrow> event \<Rightarrow> unit prog" where
  "download_promtail E ev =
     bind_m (lift_m (event_data_item ev ''promtail_binary_zip_url'')) (\<lambda>url.
     seq_m (call (UrlOpen url))
       (case urlopen E url of
          None \<Rightarrow> raise_m URLError
        | Some response \<Rightarrow> write_local BINARY_ZIP_PATH (read_chunks response [])))"

definition check_sha256sum :: "env \<Rightarrow> bool prog" where
  "check_sha256sum E =
     bind_m (read_local BINARY_ZIP_PATH) (\<lambda>f_byte.
     seq_m (call Sha256Digest)
       (return_m (BINARY_SHA25SUM = sha256_hexdigest E f_byte)))"

text \<open>\<^verbatim>\<open>extractall\<close> writes every member of the archive below the directory.\<close>

definition extract_members :: "string \<Rightarrow> (string \<times> bytes) list \<Rightarrow> (string \<times> bytes) list
    \<Rightarrow> (string \<times> bytes) list" where
  "extract_members dir members files =
     foldl (\<lambda>fs (name, content). AList.update (dir @ ''/'' @ name) content fs) files members"

definition unzip_binary :: "env \<Rightarrow> unit prog" where
  "unzip_binary E =
     bind_m (read_local BINARY_ZIP_PATH) (\<lambda>zip_bytes.
       (case zip_members E zip_bytes of
          None \<Rightarrow> raise_m BadZipFile
        | Some members \<Rightarrow>
            seq_m (call (ExtractAll BINARY_ZIP_PATH BINARY_DIR))
              (\<lambda>s. (Inr (),
                 s\<lparr>local_files := extract_members BINARY_DIR members (local_files s)\<rparr>))))"

definition upload_binary :: "unit prog" where
  "upload_binary =
     bind_m (read_local WORKLOAD_BINARY_PATH) (\<lambda>f.
     seq_m (call (Push WORKLOAD_BINARY_PATH))
       (\<lambda>s. (Inr (), s\<lparr>workload_binary := Some f\<rparr>)))"

definition obtain_promtail :: "env \<Rightarrow> event \<Rightarrow> unit prog" where
  "obtain_promtail E ev =
     bind_m is_promtail_binary_in_workload (\<lambda>present.
       if present then return_m ()
       else
         seq_m (download_promtail E ev)
           (bind_m (check_sha256sum E) (\<lambda>ok.
              if \<not> ok then raise_m PromtailDigestError
              else seq_m (unzip_binary E) upload_binary)))"

section \<open>Config file and registry updates\<close>

text \<open>\<^verbatim>\<open>_current_config\<close>: pull the config file of the sidecar and parse it.\<close>

definition current_config :: "doc prog" where
  "current_config =
     seq_m (call (Pull CONFIG_PATH))
       (\<lambda>s. (case workload_config s of None \<Rightarrow> Inl PathError | Some d \<Rightarrow> Inr d, s))"

definition stored_agent :: "string \<Rightarrow> string prog" where
  "stored_agent u s = (subscript (grafana_agents s) u, s)"

text \<open>
  \<^verbatim>\<open>_build_config_file\<close>: the URL is looked up first, then the current config is pulled,
  then the mutation is applied. An event of another kind leaves the empty document.
\<close>

definition build_config_file :: "event \<Rightarrow> doc prog" where
  "build_config_file ev =
     (if kind ev = RelationChanged then
        bind_m (lift_m (event_data_item ev ''loki_push_api'')) (\<lambda>agent_url.
        bind_m current_config (\<lambda>cfg. lift_m (add_client cfg agent_url)))
      else if kind ev = RelationDeparted then
        bind_m (stored_agent (unit ev)) (\<lambda>agent_url.
        bind_m current_config (\<lambda>cfg. lift_m (remove_client cfg agent_url)))
      else return_m [])"

definition push_config :: "doc \<Rightarrow> unit prog" where
  "push_config config =
     seq_m (call (Push CONFIG_PATH)) (\<lambda>s. (Inr (), s\<lparr>workload_config := Some config\<rparr>))"

definition update_config :: "event \<Rightarrow> unit prog" where
  "update_config ev = bind_m (build_config_file ev) push_config"

text \<open>
  \<^verbatim>\<open>_update_agents_list\<close>: a changed event stores the unit's URL; a departed event pops
  the unit's entry, a KeyError when there is none.
\<close>

definition update_agents_list :: "event \<Rightarrow> unit prog" where
  "update_agents_list ev =
     (if kind ev = RelationChanged then
        bind_m (lift_m (event_data_item ev ''loki_push_api'')) (\<lambda>agent_url s.
          (Inr (), s\<lparr>grafana_agents := AList.update (unit ev) agent_url (grafana_agents s)\<rparr>))
      else if kind ev = RelationDeparted then
        bind_m (stored_agent (unit ev)) (\<lambda>agent_url s.
          (Inr (), s\<lparr>grafana_agents := AList.delete (unit ev) (grafana_agents s)\<rparr>))
      else return_m ())"

definition cli_args :: string where
  "cli_args = ''-config.file='' @ CONFIG_PATH"

definition pebble_layer :: yaml where
  "pebble_layer =
     YDict [
       (''summary'', YStr ''promtail layer''),
       (''description'', YStr ''pebble config layer for promtail''),
       (''services'', YDict [
          (SERVICE_NAME, YDict [
             (''override'', YStr ''replace''),
             (''summary'', YStr SERVICE_NAME),
             (''command'', YStr (WORKLOAD_BINARY_PATH @ '' '' @ cli_args)),
             (''startup'', YStr ''enabled'')])])]"

definition add_pebble_layer :: "unit prog" where
  "add_pebble_layer s = call (AddLayer (container_name s) pebble_layer) s"

definition server_config :: doc where
  "server_config =
     [(''server'', YDict [(''http_listen_port'', YInt HTTP_LISTEN_PORT),
                          (''grpc_listen_port'', YInt GRPC_LISTEN_PORT)])]"

definition positions :: doc where
  "positions = [(''positions'', YDict [(''filename'', YStr POSITIONS_FILENAME)])]"

definition scrape_configs :: "world \<Rightarrow> doc" where
  "scrape_configs s =
     [(''scrape_configs'', YList [
        YDict [
          (''job_name'', YStr ''system''),
          (''static_configs'', YList [
             YDict [
               (''targets'', YList [YStr ''localhost'']),
               (''labels'', YDict [
                  (''job'', YStr (''juju_'' @ model_name s @ ''_'' @ model_uuid s @ ''_''
                                   @ app_name s)),
                  (''__path__'', YStr ''/var/log/dmesg'')])]])]])]"

text \<open>\<^verbatim>\<open>dict.update\<close> with another dictionary.\<close>

definition dict_update :: "(string \<times> 'v) list \<Rightarrow> (string \<times> 'v) list \<Rightarrow> (string \<times> 'v) list" where
  "dict_update d other = foldl (\<lambda>acc (k, v). AList.update k v acc) d other"

definition initial_config :: "world \<Rightarrow> doc" where
  "initial_config s =
     dict_update (dict_update (dict_update [] server_config) positions) (scrape_configs s)"

section \<open>The consumer's event handlers\<close>

definition on_log_proxy_relation_created :: "event \<Rightarrow> unit prog" where
  "on_log_proxy_relation_created ev s = push_config (initial_config s) s"

definition on_log_proxy_relation_changed :: "env \<Rightarrow> event \<Rightarrow> unit prog" where
  "on_log_proxy_relation_changed E ev =
     (if data ev \<noteq> None then
        seq_m (obtain_promtail E ev)
       (seq_m (update_config ev)
       (seq_m (update_agents_list ev)
       (seq_m add_pebble_layer
       (seq_m (\<lambda>s. call (Restart (container_name s)) s)
              (call (Restart (Some SERVICE_NAME)))))))
      else return_m ())"

text \<open>
  The departed handler reads the config back from the sidecar: \<^verbatim>\<open>["clients"]\<close> is a
  KeyError without the key, \<^verbatim>\<open>len\<close> a TypeError on a value that has no length.
\<close>

definition on_log_proxy_relation_departed :: "event \<Rightarrow> unit prog" where
  "on_log_proxy_relation_departed ev =
     seq_m (update_config ev)
    (seq_m (update_agents_list ev)
    (bind_m current_config (\<lambda>cfg.
     bind_m (lift_m (subscript cfg ''clients'')) (\<lambda>clients.
     bind_m (lift_m (py_len clients)) (\<lambda>n.
       if n = 0 then call (Stop SERVICE_NAME)
       else call (Restart (Some SERVICE_NAME)))))))"

definition on_upgrade_charm :: "event \<Rightarrow> unit prog" where
  "on_upgrade_charm ev = return_m ()"

section \<open>The provider\<close>

text \<open>
  The provider's unit: the bind address of the relation's binding (None when there is
  none), the text that \<^verbatim>\<open>format\<close> gives for the charm's \<^verbatim>\<open>_http_listen_port\<close>, and this
  unit's half of the relation data (each value the decoded JSON object).
\<close>

record provider =
  bind_address :: "string option"
  http_listen_port :: string
  relation_data :: "(string \<times> payload) list"

definition unit_ip :: "provider \<Rightarrow> string" where
  "unit_ip p = (case bind_address p of Some a \<Rightarrow> (if a \<noteq> [] then a else []) | None \<Rightarrow> [])"

definition loki_push_api :: "provider \<Rightarrow> payload" where
  "loki_push_api p =
     [(''loki_push_api'',
       ''http://'' @ unit_ip p @ '':'' @ http_listen_port p @ ''/loki/api/v1/push'')]"

definition promtail_binary_url :: payload where
  "promtail_binary_url = [(''promtail_binary_zip_url'', PROMTAIL_BINARY_ZIP_URL)]"

definition provider_on_log_proxy_relation_changed :: "provider \<Rightarrow> provider" where
  "provider_on_log_proxy_relation_changed p =
     (if map_of (relation_data p) ''data'' = None then
        p\<lparr>relation_data :=
            dict_update (relation_data p)
              [(''data'', dict_update (dict_update [] (loki_push_api p)) promtail_binary_url)]\<rparr>
      else p)"

section \<open>Predicates and sample inputs used by the theorems\<close>

text \<open>
  The calls that change what the sidecar runs or is configured with: the process
  supervision calls and the push of the config file.
\<close>

fun changes_sidecar :: "effect \<Rightarrow> bool" where
  "changes_sidecar (AddLayer label layer) = True"
| "changes_sidecar (Restart name) = True"
| "changes_sidecar (Stop name) = True"
| "changes_sidecar (Push path) = (path = CONFIG_PATH)"
| "changes_sidecar _ = False"

text \<open>
  From \<open>s\<close> to \<open>s'\<close> the config file and the registry are the same, and the calls made
  in between (the calls of \<open>s'\<close> after those of \<open>s\<close>) change nothing of the sidecar.
\<close>

definition sidecar_untouched :: "world \<Rightarrow> world \<Rightarrow> bool" where
  "sidecar_untouched s s' =
     (workload_config s' = workload_config s
      \<and> grafana_agents s' = grafana_agents s
      \<and> take (length (calls s)) (calls s') = calls s
      \<and> list_all (\<lambda>c. \<not> changes_sidecar c) (drop (length (calls s)) (calls s')))"

text \<open>
  A sample deployment: nothing installed yet, the initial config with one client in the
  sidecar, that client's unit in the registry; a download whose digest is not the pinned
  one.
\<close>

definition sample_config :: doc where
  "sample_config =
     [(''server'', YDict [(''http_listen_port'', YInt 9080), (''grpc_listen_port'', YInt 0)]),
      (''positions'', YDict [(''filename'', YStr ''/tmp/positions.yaml'')]),
      (''clients'', YList [client ''http://10.0.0.5:3100/loki/api/v1/push''])]"

definition sample_world :: world where
  "sample_world =
     \<lparr>container_name = Some ''promtail'', model_name = ''lma'', model_uuid = ''1234'',
      app_name = ''app'', workload_binary = None, workload_config = Some sample_config,
      local_files = [],
      grafana_agents = [(''loki/0'', ''http://10.0.0.5:3100/loki/api/v1/push'')],
      calls = []\<rparr>"

definition sample_env :: env where
  "sample_env =
     \<lparr>urlopen = (\<lambda>url. Some ''PK''), sha256_hexdigest = (\<lambda>b. ''00''),
      zip_members = (\<lambda>b. None)\<rparr>"

definition sample_changed :: event where
  "sample_changed =
     \<lparr>kind = RelationChanged, unit = ''loki/1'',
      data = Some [(''loki_push_api'', ''http://10.0.0.6:3100/loki/api/v1/push''),
                   (''promtail_binary_zip_url'', PROMTAIL_BINARY_ZIP_URL)]\<rparr>"

definition sample_departed :: "string \<Rightarrow> event" where
  "sample_departed u = \<lparr>kind = RelationDeparted, unit = u, data = None\<rparr>"

definition sample_provider :: provider where
  "sample_provider =
     \<lparr>bind_address = Some ''10.0.0.5'', http_listen_port = ''3500'',
      relation_data = [(''ingress-address'', [])]\<rparr>"

section \<open>Facts about dictionaries and the mutations\<close>

lemmas monad_defs = return_m_def raise_m_def lift_m_def bind_m_def seq_m_def call_def

lemma update_absent: "map_of al k = None \<Longrightarrow> AList.update k v al = al @ [(k, v)]"
  by (induction al) (auto split: if_splits)

lemma add_client_ok:
  "clients_ok d \<Longrightarrow>
   add_client d U = Inr (AList.update ''clients'' (YList (doc_clients d @ [client U])) d)"
  by (auto simp: clients_ok_def add_client_def doc_clients_def split: option.splits yaml.splits)

lemma clients_ok_update: "clients_ok (AList.update ''clients'' (YList cs) d)"
  by (simp add: clients_ok_def update_conv')

lemma doc_clients_update: "doc_clients (AList.update ''clients'' (YList cs) d) = cs"
  by (simp add: doc_clients_def update_conv')

lemma remove_client_list:
  assumes "map_of d ''clients'' = Some (YList cs)"
  shows "remove_client d U
           = Inr (AList.update ''clients'' (YList (filter (\<lambda>c. c \<noteq> client U) cs)) d)"
proof (cases "cs = []")
  case True
  with assms have "AList.update ''clients'' (YList []) d = d"
    by (simp add: update_triv)
  with True assms show ?thesis
    by (simp add: remove_client_def)
next
  case False
  with assms show ?thesis
    by (simp add: remove_client_def)
qed

section \<open>Config mutation: the claims\<close>

text \<open>
  C4 (as amended). For every config document whose clients entry is missing or a list,
  and every URL \<open>U\<close>, removing \<open>U\<close> after adding \<open>U\<close> gives the document whose clients
  entry is the original clients list without the entries equal to \<^verbatim>\<open>{url: U}\<close>: the empty
  list exactly when the document had no other client.
\<close>

theorem remove_client_add_client:
  assumes "clients_ok doc"
  shows "bind_exn (add_client doc U) (\<lambda>d. remove_client d U)
           = Inr (AList.update ''clients''
                    (YList (filter (\<lambda>c. c \<noteq> client U) (doc_clients doc))) doc)
         \<and> ((filter (\<lambda>c. c \<noteq> client U) (doc_clients doc) = [])
              = (set (doc_clients doc) \<subseteq> {client U}))"
proof
  show "bind_exn (add_client doc U) (\<lambda>d. remove_client d U)
          = Inr (AList.update ''clients''
                   (YList (filter (\<lambda>c. c \<noteq> client U) (doc_clients doc))) doc)"
    using assms
    by (simp add: add_client_ok bind_exn_def remove_client_list update_conv')
  show "(filter (\<lambda>c. c \<noteq> client U) (doc_clients doc) = [])
          = (set (doc_clients doc) \<subseteq> {client U})"
    by (auto simp: filter_empty_conv)
qed

theorem remove_client_add_client_witness:
  "bind_exn (add_client [(''server'', YNull)] ''u'') (\<lambda>d. remove_client d ''u'')
     = Inr [(''server'', YNull), (''clients'', YList [])]"
  using remove_client_add_client [of "[(''server'', YNull)]" "''u''"]
  by (simp add: clients_ok_def doc_clients_def)

text \<open>
  The claim as stated, for every document, fails: with another client in the list, the
  clients entry after the two calls is not the empty list.
\<close>

theorem remove_client_add_client_counterexample:
  "add_client [(''clients'', YList [client ''a''])] ''b''
     = Inr [(''clients'', YList [client ''a'', client ''b''])]
   \<and> remove_client [(''clients'', YList [client ''a'', client ''b''])] ''b''
     = Inr [(''clients'', YList [client ''a''])]
   \<and> map_of [(''clients'', YList [client ''a''])] ''clients'' \<noteq> Some (YList [])"
  by (simp add: add_client_def remove_client_def client_def)

text \<open>
  C8. For every config document (clients entry missing or a list) and every URL \<open>U\<close>,
  adding \<open>U\<close> twice appends two entries \<^verbatim>\<open>{url: U}\<close> to the clients list, whatever the
  list held: the number of entries equal to \<^verbatim>\<open>{url: U}\<close> grows by two.
\<close>

theorem add_client_twice:
  assumes "clients_ok doc"
  shows "bind_exn (add_client doc U) (\<lambda>d. add_client d U)
           = Inr (AList.update ''clients''
                    (YList (doc_clients doc @ [client U, client U])) doc)
         \<and> count_list (doc_clients doc @ [client U, client U]) (client U)
           = count_list (doc_clients doc) (client U) + 2"
  using assms
  by (simp add: add_client_ok bind_exn_def clients_ok_update doc_clients_update)

theorem add_client_twice_witness:
  "bind_exn (add_client sample_config ''http://10.0.0.5:3100/loki/api/v1/push'')
     (\<lambda>d. add_client d ''http://10.0.0.5:3100/loki/api/v1/push'')
     = Inr [(''server'', YDict [(''http_listen_port'', YInt 9080), (''grpc_listen_port'', YInt 0)]),
            (''positions'', YDict [(''filename'', YStr ''/tmp/positions.yaml'')]),
            (''clients'', YList [client ''http://10.0.0.5:3100/loki/api/v1/push'',
                                 client ''http://10.0.0.5:3100/loki/api/v1/push'',
                                 client ''http://10.0.0.5:3100/loki/api/v1/push''])]"
  using add_client_twice [of sample_config "''http://10.0.0.5:3100/loki/api/v1/push''"]
  by (simp add: clients_ok_def doc_clients_def sample_config_def)

text \<open>
  C10. Whenever \<^verbatim>\<open>_add_client\<close> or \<^verbatim>\<open>_remove_client\<close> returns, every top-level key other
  than \<^verbatim>\<open>clients\<close> has the value it had, and the entries other than \<^verbatim>\<open>clients\<close> are
  the same entries in the same order: only the clients entry is created or modified.
\<close>

theorem mutation_keeps_other_keys:
  "(add_client doc U = Inr d \<longrightarrow>
      (\<forall>k. k \<noteq> ''clients'' \<longrightarrow> map_of d k = map_of doc k)
      \<and> AList.delete ''clients'' d = AList.delete ''clients'' doc)
   \<and> (remove_client doc U = Inr d' \<longrightarrow>
      (\<forall>k. k \<noteq> ''clients'' \<longrightarrow> map_of d' k = map_of doc k)
      \<and> AList.delete ''clients'' d' = AList.delete ''clients'' doc)"
  by (auto simp add: add_client_def remove_client_def update_conv' delete_update_same
      split: option.splits yaml.splits if_splits sum.splits)

theorem mutation_keeps_other_keys_witness:
  "add_client [(''server'', YInt 1)] ''u''
     = Inr [(''server'', YInt 1), (''clients'', YList [client ''u''])]
   \<and> map_of [(''server'', YInt 1), (''clients'', YList [client ''u''])] ''server''
     = map_of [(''server'', YInt 1)] ''server''
   \<and> remove_client [(''server'', YInt 1), (''clients'', YList [client ''u''])] ''u''
     = Inr [(''server'', YInt 1), (''clients'', YList [])]
   \<and> map_of [(''server'', YInt 1), (''clients'', YList [])] ''server''
     = map_of [(''server'', YInt 1), (''clients'', YList [client ''u''])] ''server''"
  using mutation_keeps_other_keys [of "[(''server'', YInt 1)]" "''u''"
      "[(''server'', YInt 1), (''clients'', YList [client ''u''])]"
      "[(''server'', YInt 1), (''clients'', YList [client ''u''])]"]
    mutation_keeps_other_keys [of "[(''server'', YInt 1), (''clients'', YList [client ''u''])]"
      "''u''" "[(''server'', YInt 1), (''clients'', YList [client ''u''])]"
      "[(''server'', YInt 1), (''clients'', YList [])]"]
  by (simp add: add_client_def remove_client_def client_def)

section \<open>Container resolution: the claim\<close>

text \<open>
  C5. With no container name configured, \<^verbatim>\<open>_get_container\<close> raises exactly when the unit
  does not have exactly one container (none, or more than one), and the exception is the
  \<^verbatim>\<open>Exception\<close> of its last line; with exactly one container, that container is returned.
\<close>

theorem get_container_unnamed:
  "((\<exists>e. get_container containers None = Inl e) = (length containers \<noteq> 1))
   \<and> get_container [c] None = Inr c
   \<and> get_container containers None
       = (if length containers = 1 then Inr (hd containers) else Inl Exception)"
  by (auto simp add: get_container_def unit_get_container_def length_Suc_conv_rev)

section \<open>The provider: the claim\<close>

text \<open>
  C6. When this unit's relation data has no \<^verbatim>\<open>data\<close> key, the first relation-changed
  event adds the composed document (the push URL built from the unit's address and port,
  and the binary's URL) under \<^verbatim>\<open>data\<close>, leaving the other keys as they are, and a second
  event changes nothing.
\<close>

theorem provider_publishes_once:
  assumes "map_of (relation_data p) ''data'' = None"
  shows "relation_data (provider_on_log_proxy_relation_changed p)
           = relation_data p @
             [(''data'',
               [(''loki_push_api'',
                 ''http://'' @ unit_ip p @ '':'' @ http_listen_port p @ ''/loki/api/v1/push''),
                (''promtail_binary_zip_url'', PROMTAIL_BINARY_ZIP_URL)])]
         \<and> provider_on_log_proxy_relation_changed (provider_on_log_proxy_relation_changed p)
           = provider_on_log_proxy_relation_changed p"
  using assms
  by (simp add: provider_on_log_proxy_relation_changed_def dict_update_def loki_push_api_def
      promtail_binary_url_def update_absent map_of_eq_None_iff)

theorem provider_publishes_once_witness:
  "relation_data (provider_on_log_proxy_relation_changed sample_provider)
     = [(''ingress-address'', []),
        (''data'', [(''loki_push_api'', ''http://10.0.0.5:3500/loki/api/v1/push''),
                    (''promtail_binary_zip_url'', PROMTAIL_BINARY_ZIP_URL)])]
   \<and> provider_on_log_proxy_relation_changed
        (provider_on_log_proxy_relation_changed sample_provider)
     = provider_on_log_proxy_relation_changed sample_provider"
  using provider_publishes_once [of sample_provider]
  by (simp add: sample_provider_def unit_ip_def)

section \<open>Binary provisioning: the claims\<close>

text \<open>The chunk loop writes the whole response, whatever was written before it.\<close>

lemma read_chunks_append: "read_chunks response written = written @ response"
proof (induction response written rule: read_chunks.induct)
  case (1 response written)
  show ?case
  proof (cases "response = []")
    case True
    then show ?thesis by (subst read_chunks.simps) simp
  next
    case False
    then have "read_chunks response written
                 = read_chunks (drop 8192 response) (written @ take 8192 response)"
      by (subst read_chunks.simps) simp
    also have "\<dots> = (written @ take 8192 response) @ drop 8192 response"
      using "1.IH" False by simp
    finally show ?thesis by simp
  qed
qed

lemmas provision_defs = obtain_promtail_def is_promtail_binary_in_workload_def
  list_files_binary_def download_promtail_def event_data_item_def subscript_def
  write_local_def read_local_def check_sha256sum_def unzip_binary_def upload_binary_def

text \<open>
  When the digest is the pinned one, the archive is a zip file and it holds the binary,
  provisioning installs the binary: the path on which the claims below say what does not
  happen.
\<close>

lemma obtain_promtail_installs:
  assumes "workload_binary s = None"
    and "data ev = Some p"
    and "map_of p ''promtail_binary_zip_url'' = Some url"
    and "urlopen E url = Some response"
    and "sha256_hexdigest E response = BINARY_SHA25SUM"
    and "zip_members E response = Some members"
    and "map_of (extract_members BINARY_DIR members
                   (AList.update BINARY_ZIP_PATH response (local_files s)))
           WORKLOAD_BINARY_PATH = Some binary"
  shows "obtain_promtail E ev s
           = (Inr (),
              s\<lparr>workload_binary := Some binary,
                local_files := extract_members BINARY_DIR members
                                 (AList.update BINARY_ZIP_PATH response (local_files s)),
                calls := calls s @ [ListFiles BINARY_DIR ''promtail-linux-amd64'', UrlOpen url,
                   OpenWrite BINARY_ZIP_PATH, OpenRead BINARY_ZIP_PATH, Sha256Digest,
                   OpenRead BINARY_ZIP_PATH, ExtractAll BINARY_ZIP_PATH BINARY_DIR,
                   OpenRead WORKLOAD_BINARY_PATH, Push WORKLOAD_BINARY_PATH]\<rparr>)"
  using assms
  by (simp add: provision_defs read_chunks_append update_conv' monad_defs)

text \<open>
  C1. When the binary is not in the sidecar and the archive downloaded from the URL of
  the relation data has a SHA-256 digest other than the pinned one, \<^verbatim>\<open>_obtain_promtail\<close>
  raises PromtailDigestError. It has listed the files, downloaded, written and hashed the
  archive, and nothing else: no unzip, no push, and the binary of the sidecar is still
  missing.
\<close>

theorem obtain_promtail_digest_mismatch:
  assumes "workload_binary s = None"
    and "data ev = Some p"
    and "map_of p ''promtail_binary_zip_url'' = Some url"
    and "urlopen E url = Some response"
    and "sha256_hexdigest E response \<noteq> BINARY_SHA25SUM"
  shows "obtain_promtail E ev s
           = (Inl PromtailDigestError,
              s\<lparr>local_files := AList.update BINARY_ZIP_PATH response (local_files s),
                calls := calls s @ [ListFiles BINARY_DIR ''promtail-linux-amd64'', UrlOpen url,
                   OpenWrite BINARY_ZIP_PATH, OpenRead BINARY_ZIP_PATH, Sha256Digest]\<rparr>)"
  using assms
  by (simp add: provision_defs read_chunks_append update_conv' not_sym monad_defs)

theorem obtain_promtail_digest_mismatch_witness:
  "workload_binary sample_world = None
   \<and> sha256_hexdigest sample_env ''PK'' \<noteq> BINARY_SHA25SUM
   \<and> obtain_promtail sample_env sample_changed sample_world
     = (Inl PromtailDigestError,
        sample_world\<lparr>local_files := [(BINARY_ZIP_PATH, ''PK'')],
          calls := [ListFiles BINARY_DIR ''promtail-linux-amd64'',
                    UrlOpen PROMTAIL_BINARY_ZIP_URL, OpenWrite BINARY_ZIP_PATH,
                    OpenRead BINARY_ZIP_PATH, Sha256Digest]\<rparr>)"
  using obtain_promtail_digest_mismatch [of sample_world sample_changed
      "[(''loki_push_api'', ''http://10.0.0.6:3100/loki/api/v1/push''),
        (''promtail_binary_zip_url'', PROMTAIL_BINARY_ZIP_URL)]"
      PROMTAIL_BINARY_ZIP_URL sample_env "''PK''"]
  by (simp add: sample_world_def sample_changed_def sample_env_def BINARY_SHA25SUM_def)

text \<open>
  C9. When the binary is already in the sidecar, \<^verbatim>\<open>_obtain_promtail\<close> returns at once:
  its only call is the listing of the sidecar's files, so there is no download, no
  checksum, no unzip and no upload, and no file is changed.
\<close>

theorem obtain_promtail_fast_path:
  assumes "workload_binary s = Some b"
  shows "obtain_promtail E ev s
           = (Inr (), s\<lparr>calls := calls s @ [ListFiles BINARY_DIR ''promtail-linux-amd64'']\<rparr>)"
  using assms
  by (simp add: provision_defs monad_defs)

theorem obtain_promtail_fast_path_witness:
  "obtain_promtail sample_env sample_changed (sample_world\<lparr>workload_binary := Some ''ELF''\<rparr>)
     = (Inr (), sample_world\<lparr>workload_binary := Some ''ELF'',
                  calls := [ListFiles BINARY_DIR ''promtail-linux-amd64'']\<rparr>)"
  using obtain_promtail_fast_path [of "sample_world\<lparr>workload_binary := Some ''ELF''\<rparr>"
      "''ELF''" sample_env sample_changed]
  by (simp add: sample_world_def)

section \<open>Provisioning leaves the sidecar's config and services alone\<close>

lemma untouched_refl: "sidecar_untouched s s"
  by (simp add: sidecar_untouched_def)

lemma untouched_trans:
  assumes "sidecar_untouched s t" and "sidecar_untouched t u"
  shows "sidecar_untouched s u"
proof -
  from assms(1) have st: "calls t = calls s @ drop (length (calls s)) (calls t)"
    by (metis append_take_drop_id sidecar_untouched_def)
  from assms(2) have tu: "calls u = calls t @ drop (length (calls t)) (calls u)"
    by (metis append_take_drop_id sidecar_untouched_def)
  let ?a = "drop (length (calls s)) (calls t)"
  let ?b = "drop (length (calls t)) (calls u)"
  have su: "calls u = calls s @ ?a @ ?b"
    using st tu by (metis append.assoc)
  have a: "list_all (\<lambda>c. \<not> changes_sidecar c) ?a"
    using assms(1) by (simp add: sidecar_untouched_def)
  have b: "list_all (\<lambda>c. \<not> changes_sidecar c) ?b"
    using assms(2) by (simp add: sidecar_untouched_def)
  have "take (length (calls s)) (calls u) = calls s"
    by (subst su) simp
  moreover have "drop (length (calls s)) (calls u) = ?a @ ?b"
    by (subst su) simp
  ultimately show ?thesis
    using assms a b by (simp add: sidecar_untouched_def)
qed

lemma untouched_bind:
  assumes "\<And>s. sidecar_untouched s (snd (m s))"
    and "\<And>a s. sidecar_untouched s (snd (f a s))"
  shows "sidecar_untouched s (snd (bind_m m f s))"
proof (cases "m s")
  case (Pair r t)
  have st: "sidecar_untouched s t"
    using assms(1) [of s] Pair by simp
  show ?thesis
  proof (cases r)
    case (Inl e)
    with Pair st show ?thesis by (simp add: bind_m_def)
  next
    case (Inr a)
    have "sidecar_untouched t (snd (f a t))" by (rule assms(2))
    with st have "sidecar_untouched s (snd (f a t))" by (rule untouched_trans)
    with Pair Inr show ?thesis by (simp add: bind_m_def)
  qed
qed

lemma untouched_seq:
  assumes "\<And>s. sidecar_untouched s (snd (m s))"
    and "\<And>s. sidecar_untouched s (snd (n s))"
  shows "sidecar_untouched s (snd (seq_m m n s))"
  unfolding seq_m_def using assms by (rule untouched_bind)

lemma untouched_call:
  "\<not> changes_sidecar c \<Longrightarrow> sidecar_untouched s (snd (call c s))"
  by (simp add: call_def sidecar_untouched_def)

lemma untouched_step:
  assumes "workload_config (g s) = workload_config s"
    and "grafana_agents (g s) = grafana_agents s"
    and "calls (g s) = calls s"
  shows "sidecar_untouched s (g s)"
  using assms by (simp add: sidecar_untouched_def)

lemma untouched_is_present: "sidecar_untouched s (snd (is_promtail_binary_in_workload s))"
  unfolding is_promtail_binary_in_workload_def
  by (rule untouched_seq) (simp_all add: untouched_call untouched_refl)

lemma untouched_write_local: "sidecar_untouched s (snd (write_local path content s))"
  unfolding write_local_def
  apply (rule untouched_seq)
   apply (simp add: untouched_call)
  apply (simp add: sidecar_untouched_def)
  done

lemma untouched_read_local: "sidecar_untouched s (snd (read_local path s))"
  unfolding read_local_def
  by (rule untouched_seq) (simp_all add: untouched_call untouched_refl)

lemma untouched_download: "sidecar_untouched s (snd (download_promtail E ev s))"
  unfolding download_promtail_def
  apply (rule untouched_bind)
   apply (simp add: lift_m_def untouched_refl)
  apply (rule untouched_seq)
   apply (simp add: untouched_call)
  apply (simp add: raise_m_def untouched_refl untouched_write_local split: option.splits)
  done

lemma untouched_check: "sidecar_untouched s (snd (check_sha256sum E s))"
  unfolding check_sha256sum_def
  apply (rule untouched_bind)
   apply (rule untouched_read_local)
  apply (rule untouched_seq)
   apply (simp add: untouched_call)
  apply (simp add: return_m_def untouched_refl)
  done

lemma untouched_unzip: "sidecar_untouched s (snd (unzip_binary E s))"
  unfolding unzip_binary_def
  apply (rule untouched_bind)
   apply (rule untouched_read_local)
  apply (simp split: option.splits)
  apply (intro conjI allI impI)
   apply (simp add: raise_m_def untouched_refl)
  apply (rule untouched_seq)
   apply (simp add: untouched_call)
  apply (simp add: sidecar_untouched_def)
  done

lemma workload_path_not_config: "WORKLOAD_BINARY_PATH \<noteq> CONFIG_PATH"
  by (simp add: WORKLOAD_BINARY_PATH_def CONFIG_PATH_def)

lemma untouched_upload: "sidecar_untouched s (snd (upload_binary s))"
  unfolding upload_binary_def
  apply (rule untouched_bind)
   apply (rule untouched_read_local)
  apply (rule untouched_seq)
   apply (simp add: untouched_call workload_path_not_config)
  apply (simp add: sidecar_untouched_def)
  done

lemma untouched_obtain: "sidecar_untouched s (snd (obtain_promtail E ev s))"
  unfolding obtain_promtail_def
  apply (rule untouched_bind)
   apply (rule untouched_is_present)
  apply (simp add: return_m_def untouched_refl)
  apply (intro impI)
  apply (rule untouched_seq)
   apply (rule untouched_download)
  apply (rule untouched_bind)
   apply (rule untouched_check)
  apply (simp add: raise_m_def untouched_refl)
  apply (intro impI)
  apply (rule untouched_seq)
   apply (rule untouched_unzip)
  apply (rule untouched_upload)
  done

text \<open>
  C2. When a relation-changed event carries peer data and \<^verbatim>\<open>_obtain_promtail\<close> raises
  (PromtailDigestError or any other exception), the handler ends with that exception in
  the state provisioning left: the config file and the registry are what they were, and
  no call made since the start of the handler pushed the config, declared a layer,
  restarted or stopped a service.
\<close>

theorem provision_error_aborts:
  assumes "data ev \<noteq> None"
    and "obtain_promtail E ev s = (Inl e, s')"
  shows "on_log_proxy_relation_changed E ev s = (Inl e, s')
         \<and> sidecar_untouched s s'"
proof
  show "on_log_proxy_relation_changed E ev s = (Inl e, s')"
    using assms by (simp add: on_log_proxy_relation_changed_def seq_m_def bind_m_def)
  show "sidecar_untouched s s'"
    using untouched_obtain [of s E ev] assms(2) by simp
qed

theorem provision_error_aborts_witness:
  "on_log_proxy_relation_changed sample_env sample_changed sample_world
     = (Inl PromtailDigestError,
        sample_world\<lparr>local_files := [(BINARY_ZIP_PATH, ''PK'')],
          calls := [ListFiles BINARY_DIR ''promtail-linux-amd64'',
                    UrlOpen PROMTAIL_BINARY_ZIP_URL, OpenWrite BINARY_ZIP_PATH,
                    OpenRead BINARY_ZIP_PATH, Sha256Digest]\<rparr>)
   \<and> sidecar_untouched sample_world
        (sample_world\<lparr>local_files := [(BINARY_ZIP_PATH, ''PK'')],
          calls := [ListFiles BINARY_DIR ''promtail-linux-amd64'',
                    UrlOpen PROMTAIL_BINARY_ZIP_URL, OpenWrite BINARY_ZIP_PATH,
                    OpenRead BINARY_ZIP_PATH, Sha256Digest]\<rparr>)"
proof -
  have d: "data sample_changed \<noteq> None"
    by (simp add: sample_changed_def)
  have h: "obtain_promtail sample_env sample_changed sample_world
     = (Inl PromtailDigestError,
        sample_world\<lparr>local_files := [(BINARY_ZIP_PATH, ''PK'')],
          calls := [ListFiles BINARY_DIR ''promtail-linux-amd64'',
                    UrlOpen PROMTAIL_BINARY_ZIP_URL, OpenWrite BINARY_ZIP_PATH,
                    OpenRead BINARY_ZIP_PATH, Sha256Digest]\<rparr>)"
    by (simp add: provision_defs read_chunks_append monad_defs sample_world_def
        sample_changed_def sample_env_def BINARY_SHA25SUM_def)
  show ?thesis
    using provision_error_aborts [OF d h] by simp
qed

section \<open>The departed handler: the claims\<close>

lemmas config_defs = update_config_def build_config_file_def stored_agent_def
  current_config_def push_config_def update_agents_list_def subscript_def

text \<open>
  Without a clients key in the config of the sidecar, \<^verbatim>\<open>_remove_client\<close> returns the
  document as it is, and the handler then fails on \<^verbatim>\<open>["clients"]\<close>: the config has been
  pushed and the unit forgotten, and the service is neither stopped nor restarted.
\<close>

lemma departed_without_clients_key:
  assumes "kind ev = RelationDeparted"
    and "map_of (grafana_agents s) (unit ev) = Some url"
    and "workload_config s = Some d"
    and "map_of d ''clients'' = None"
  shows "on_log_proxy_relation_departed ev s
           = (Inl KeyError,
              s\<lparr>workload_config := Some d,
                grafana_agents := AList.delete (unit ev) (grafana_agents s),
                calls := calls s @ [Pull CONFIG_PATH, Push CONFIG_PATH, Pull CONFIG_PATH]\<rparr>)"
  using assms
  by (simp add: on_log_proxy_relation_departed_def config_defs remove_client_def monad_defs)

text \<open>
  C3 (as amended). For a relation-departed event of a unit that has an entry in the
  registry, with a config in the sidecar whose clients entry is a list, the handler pushes
  the config that \<^verbatim>\<open>_remove_client\<close> gives for the registered URL, deletes the unit's
  entry, pulls the config again, and then stops the service when the clients list that
  is left is empty and restarts it otherwise.
\<close>

theorem departed_known_unit:
  assumes "kind ev = RelationDeparted"
    and "map_of (grafana_agents s) (unit ev) = Some url"
    and "workload_config s = Some d"
    and "map_of d ''clients'' = Some (YList cs)"
  shows "on_log_proxy_relation_departed ev s
           = (Inr (),
              s\<lparr>workload_config :=
                  Some (AList.update ''clients''
                          (YList (filter (\<lambda>c. c \<noteq> client url) cs)) d),
                grafana_agents := AList.delete (unit ev) (grafana_agents s),
                calls := calls s @
                  [Pull CONFIG_PATH, Push CONFIG_PATH, Pull CONFIG_PATH,
                   if filter (\<lambda>c. c \<noteq> client url) cs = [] then Stop SERVICE_NAME
                   else Restart (Some SERVICE_NAME)]\<rparr>)"
  using assms(1-3) remove_client_list [OF assms(4), of url]
  by (simp add: on_log_proxy_relation_departed_def config_defs update_conv' monad_defs)

theorem departed_known_unit_witness:
  "on_log_proxy_relation_departed (sample_departed ''loki/0'') sample_world
     = (Inr (),
        sample_world\<lparr>workload_config :=
            Some [(''server'', YDict [(''http_listen_port'', YInt 9080),
                                      (''grpc_listen_port'', YInt 0)]),
                  (''positions'', YDict [(''filename'', YStr ''/tmp/positions.yaml'')]),
                  (''clients'', YList [])],
          grafana_agents := [],
          calls := [Pull CONFIG_PATH, Push CONFIG_PATH, Pull CONFIG_PATH, Stop SERVICE_NAME]\<rparr>)"
  using departed_known_unit [of "sample_departed ''loki/0''" sample_world
      "''http://10.0.0.5:3100/loki/api/v1/push''" sample_config
      "[client ''http://10.0.0.5:3100/loki/api/v1/push'']"]
  by (simp add: sample_departed_def sample_world_def sample_config_def)

text \<open>
  The claim as stated, for every relation-departed event, fails: for a unit that is not
  in the registry the handler raises KeyError at once, with no config rewritten and no
  service stopped or restarted.
\<close>

theorem departed_every_event_counterexample:
  "on_log_proxy_relation_departed (sample_departed ''loki/7'') sample_world
     = (Inl KeyError, sample_world)"
  by (simp add: on_log_proxy_relation_departed_def config_defs monad_defs
      sample_departed_def sample_world_def)

text \<open>
  C7. For a relation-departed event of a unit that has no entry in the registry,
  \<^verbatim>\<open>_update_agents_list\<close> raises KeyError and changes nothing, and the handler as a whole
  ends with KeyError and changes nothing (there the lookup of \<^verbatim>\<open>_build_config_file\<close>,
  which runs first, already raises it).
\<close>

theorem departed_unknown_unit:
  assumes "kind ev = RelationDeparted"
    and "map_of (grafana_agents s) (unit ev) = None"
  shows "update_agents_list ev s = (Inl KeyError, s)
         \<and> on_log_proxy_relation_departed ev s = (Inl KeyError, s)"
  using assms
  by (simp add: on_log_proxy_relation_departed_def config_defs monad_defs)

theorem departed_unknown_unit_witness:
  "update_agents_list (sample_departed ''loki/1'') sample_world = (Inl KeyError, sample_world)
   \<and> on_log_proxy_relation_departed (sample_departed ''loki/1'') sample_world
     = (Inl KeyError, sample_world)"
  using departed_unknown_unit [of "sample_departed ''loki/1''" sample_world]
  by (simp add: sample_departed_def sample_world_def)

end
